theory Spec2Isabelle
  imports Main "HOL-Library.Word"
begin

section \<open>Shared vocabulary\<close>

text \<open>
  Objects live at addresses. A reference or a pointer to an object is its address, so that
  "the same stream" and "the joiner itself" are equalities of addresses.
\<close>

type_synonym addr = nat

text \<open>
  The ways a use of the header fails. The first three are rejections by the compiler (the
  program is ill-formed and has no run-time behaviour); the others are run-time failures.
\<close>

datatype error =
    IllFormed              \<comment> \<open>an initialisation or a return statement whose types do not fit\<close>
  | NoMatchingFunction     \<comment> \<open>overload resolution finds no viable candidate\<close>
  | UseOfDeletedFunction   \<comment> \<open>overload resolution selects a function defined as deleted\<close>
  | DanglingReference      \<comment> \<open>an address at which no object of the expected kind lives\<close>
  | ConstructorThrew       \<comment> \<open>the constructor of the object under construction failed\<close>
  | BadArrayNewLength      \<comment> \<open>\<open>std::bad_array_new_length\<close>: the array would be larger than allowed\<close>
  | BadAlloc               \<comment> \<open>\<open>std::bad_alloc\<close>: the allocation function finds no storage\<close>

text \<open>The value category of an argument expression at a call site.\<close>

datatype category = Lvalue | Rvalue

text \<open>
  Perfect forwarding. For a parameter \<open>Args&&\<close>, an lvalue argument of type \<open>U\<close>
  deduces \<open>Args = U&\<close> and an rvalue deduces \<open>Args = U\<close>; \<open>std::forward<Args>(x)\<close>
  is \<open>static_cast<Args&&>(x)\<close>, an lvalue for \<open>U&\<close> and an rvalue for \<open>U\<close>.
\<close>

datatype deduced = LvalueReference | NonReference

fun deduce :: "category \<Rightarrow> deduced" where
  "deduce Lvalue = LvalueReference"
| "deduce Rvalue = NonReference"

fun forward :: "deduced \<Rightarrow> category" where
  "forward LvalueReference = Lvalue"
| "forward NonReference = Rvalue"

section \<open>The output-sequence joiner (\<open>_backport_ts::ostream_joiner\<close>)\<close>

text \<open>
  An output stream is modelled by the characters written to it so far; the streams of a
  program are a store from addresses to contents. Inserting a value with \<open><<\<close> appends the
  text of the value; how a value of a given type is rendered is the stream library's business
  and is a parameter (\<open>putd\<close> for the delimiter type, \<open>putv\<close> for the assigned type).
\<close>

type_synonym streams = "addr \<rightharpoonup> string"

record 'd ostream_joiner =
  out_stream :: addr        \<comment> \<open>\<open>ostream_type* out_stream\<close>\<close>
  delim :: 'd               \<comment> \<open>\<open>DelimT delim\<close>\<close>
  first_element :: bool     \<comment> \<open>\<open>bool first_element\<close>\<close>

record 'd world =
  streams :: streams
  joiners :: "addr \<rightharpoonup> 'd ostream_joiner"

text \<open>
  The expressions that the two constructors use to initialise \<open>out_stream\<close>:
  \<open>std::addressof(s)\<close> has type \<open>ostream_type*\<close> and points to the stream \<open>s\<close>;
  \<open>std::addressof(out_stream)\<close> has type \<open>ostream_type**\<close> and points to the member
  \<open>out_stream\<close> of the joiner under construction.
\<close>

datatype pointer =
    AddressOfStream addr    \<comment> \<open>\<open>ostream_type*\<close>, the stream at that address\<close>
  | AddressOfMember addr    \<comment> \<open>\<open>ostream_type**\<close>, the member of the joiner at that address\<close>

text \<open>
  Initialising a member of type \<open>ostream_type*\<close>: there is no implicit conversion from
  \<open>ostream_type**\<close>, so the second kind of initialiser is rejected.
\<close>

fun init_out_stream :: "pointer \<Rightarrow> error + addr" where
  "init_out_stream (AddressOfStream a) = Inr a"
| "init_out_stream (AddressOfMember a) = Inl IllFormed"

text \<open>
  \<open>ostream_joiner(ostream_type& s, const DelimT& delimiter)\<close>, constructing the joiner at
  address \<open>this\<close>: \<open>out_stream(std::addressof(out_stream)), delim(delimiter),
  first_element(true)\<close>.
\<close>

definition ostream_joiner_copy ::
  "addr \<Rightarrow> addr \<Rightarrow> 'd \<Rightarrow> 'd world \<Rightarrow> error + 'd world" where
  "ostream_joiner_copy this s delimiter w =
     (case init_out_stream (AddressOfMember this) of
        Inl e \<Rightarrow> Inl e
      | Inr p \<Rightarrow>
          Inr (w\<lparr>joiners := (joiners w)(this \<mapsto>
                 \<lparr>out_stream = p, delim = delimiter, first_element = True\<rparr>)\<rparr>))"

text \<open>
  \<open>ostream_joiner(ostream_type& s, DelimT&& delimiter)\<close>:
  \<open>out_stream(std::addressof(s)), delim(std::move(delimiter)), first_element(true)\<close>.
\<close>

definition ostream_joiner_move ::
  "addr \<Rightarrow> addr \<Rightarrow> 'd \<Rightarrow> 'd world \<Rightarrow> error + 'd world" where
  "ostream_joiner_move this s delimiter w =
     (case init_out_stream (AddressOfStream s) of
        Inl e \<Rightarrow> Inl e
      | Inr p \<Rightarrow>
          Inr (w\<lparr>joiners := (joiners w)(this \<mapsto>
                 \<lparr>out_stream = p, delim = delimiter, first_element = True\<rparr>)\<rparr>))"

text \<open>
  The delimiter argument of a call of \<open>make_ostream_joiner\<close>, as overload resolution sees
  it: its value category, whether its type is const-qualified, whether its type decays (an
  array such as a string literal, or a function, for which \<open>decay_t<DelimT>\<close> is a
  pointer type), and the value of type \<open>decay_t<DelimT>\<close> that the joiner is to hold.
\<close>

record 'd delimiter_argument =
  category_of :: category
  is_const :: bool
  decays :: bool
  value_of :: 'd

text \<open>
  The choice between the two constructors of \<open>ostream_joiner<D>\<close> for an argument
  expression of the given category and constness. An argument whose type decays is
  converted to a pointer prvalue, to which both parameters bind, and the binding of the
  rvalue reference \<open>D&&\<close> is the better one. Otherwise \<open>D&&\<close> binds only a non-const
  rvalue, and \<open>const D&\<close> binds everything.
\<close>

datatype constructor = ConstReference | RvalueReference

fun select_constructor :: "category \<Rightarrow> bool \<Rightarrow> bool \<Rightarrow> constructor" where
  "select_constructor c cnst True = RvalueReference"
| "select_constructor Rvalue False False = RvalueReference"
| "select_constructor Rvalue True False = ConstReference"
| "select_constructor Lvalue cnst False = ConstReference"

text \<open>
  \<open>make_ostream_joiner(os, delimiter)\<close> returns
  \<open>ostream_joiner<decay_t<DelimT>, CharT, Traits>(os, std::forward<DelimT>(delimiter))\<close>:
  the forwarded delimiter has the value category and constness of the caller's argument.
\<close>

definition make_ostream_joiner ::
  "addr \<Rightarrow> addr \<Rightarrow> 'd delimiter_argument \<Rightarrow> 'd world \<Rightarrow> error + 'd world" where
  "make_ostream_joiner this os delimiter w =
     (case select_constructor (forward (deduce (category_of delimiter)))
             (is_const delimiter) (decays delimiter) of
        ConstReference \<Rightarrow> ostream_joiner_copy this os (value_of delimiter) w
      | RvalueReference \<Rightarrow> ostream_joiner_move this os (value_of delimiter) w)"

text \<open>\<open>*out_stream << x\<close>: append the text of \<open>x\<close> to the stream the pointer designates.\<close>

definition stream_insert :: "addr \<Rightarrow> string \<Rightarrow> streams \<Rightarrow> error + streams" where
  "stream_insert p txt \<sigma> =
     (case \<sigma> p of
        None \<Rightarrow> Inl DanglingReference
      | Some content \<Rightarrow> Inr (\<sigma>(p \<mapsto> content @ txt)))"

text \<open>
  \<open>operator=(const T& value)\<close> on the joiner at \<open>this\<close>:
  \<open>if (!first_element) *out_stream << delim; first_element = false;
  *out_stream << value; return *this;\<close>
\<close>

definition operator_assign ::
  "('d \<Rightarrow> string) \<Rightarrow> ('v \<Rightarrow> string) \<Rightarrow> addr \<Rightarrow> 'v \<Rightarrow> 'd world \<Rightarrow> error + (addr \<times> 'd world)" where
  "operator_assign putd putv this val w =
     (case joiners w this of
        None \<Rightarrow> Inl DanglingReference
      | Some j \<Rightarrow>
          (case (if \<not> first_element j
                 then stream_insert (out_stream j) (putd (delim j)) (streams w)
                 else Inr (streams w)) of
             Inl e \<Rightarrow> Inl e
           | Inr \<sigma>1 \<Rightarrow>
               (case stream_insert (out_stream j) (putv val) \<sigma>1 of
                  Inl e \<Rightarrow> Inl e
                | Inr \<sigma>2 \<Rightarrow>
                    Inr (this,
                         w\<lparr>streams := \<sigma>2,
                           joiners := (joiners w)(this \<mapsto> j\<lparr>first_element := False\<rparr>)\<rparr>))))"

text \<open>
  The operand of a \<open>return\<close> statement inside a member function: \<open>*this\<close> is the object,
  \<open>this\<close> is a pointer to it. A function declared to return \<open>ostream_joiner&\<close> can bind
  its result to the first only.
\<close>

datatype return_operand = DerefThis addr | This addr

fun return_reference :: "return_operand \<Rightarrow> error + addr" where
  "return_reference (DerefThis a) = Inr a"
| "return_reference (This a) = Inl IllFormed"

text \<open>\<open>ostream_joiner& operator*() noexcept { return *this; }\<close>\<close>

definition operator_deref :: "addr \<Rightarrow> error + addr" where
  "operator_deref this = return_reference (DerefThis this)"

text \<open>\<open>ostream_joiner& operator++() noexcept { return *this; }\<close>\<close>

definition operator_preinc :: "addr \<Rightarrow> error + addr" where
  "operator_preinc this = return_reference (DerefThis this)"

text \<open>\<open>ostream_joiner& operator++(int) noexcept { return this; }\<close>\<close>

definition operator_postinc :: "addr \<Rightarrow> error + addr" where
  "operator_postinc this = return_reference (This this)"

text \<open>
  What a client does with a joiner after constructing it, one operation at a time. Each
  operation is applied to the reference the previous one returned.
\<close>

datatype 'v action = Deref | PreInc | PostInc | Assign 'v

fun step ::
  "('d \<Rightarrow> string) \<Rightarrow> ('v \<Rightarrow> string) \<Rightarrow> 'v action \<Rightarrow> addr \<Rightarrow> 'd world \<Rightarrow> error + (addr \<times> 'd world)" where
  "step putd putv Deref this w =
     (case operator_deref this of Inl e \<Rightarrow> Inl e | Inr r \<Rightarrow> Inr (r, w))"
| "step putd putv PreInc this w =
     (case operator_preinc this of Inl e \<Rightarrow> Inl e | Inr r \<Rightarrow> Inr (r, w))"
| "step putd putv PostInc this w =
     (case operator_postinc this of Inl e \<Rightarrow> Inl e | Inr r \<Rightarrow> Inr (r, w))"
| "step putd putv (Assign v) this w = operator_assign putd putv this v w"

fun run ::
  "('d \<Rightarrow> string) \<Rightarrow> ('v \<Rightarrow> string) \<Rightarrow> 'v action list \<Rightarrow> addr \<Rightarrow> 'd world \<Rightarrow> error + (addr \<times> 'd world)" where
  "run putd putv [] this w = Inr (this, w)"
| "run putd putv (a # as) this w =
     (case step putd putv a this w of
        Inl e \<Rightarrow> Inl e
      | Inr (r, w') \<Rightarrow> run putd putv as r w')"

text \<open>
  The text a joiner contributes for a sequence of values: the first value bare, every later
  value with the delimiter immediately before it.
\<close>

fun joined :: "string \<Rightarrow> string list \<Rightarrow> string" where
  "joined d [] = []"
| "joined d (x # xs) = x @ concat (map (\<lambda>y. d @ y) xs)"

text \<open>
  Rendering of an \<open>int\<close> by \<open>operator<<\<close> in the default (decimal) format, used for the
  concrete example of the specification.
\<close>

fun decimal :: "nat \<Rightarrow> string" where
  "decimal n =
     (if n < 10 then [''0123456789'' ! n]
      else decimal (n div 10) @ [''0123456789'' ! (n mod 10)])"

definition put_int :: "int \<Rightarrow> string" where
  "put_int i = (if i < 0 then CHR ''-'' # decimal (nat (- i)) else decimal (nat i))"

section \<open>The exclusive-ownership factory (\<open>_backport14::make_unique\<close>)\<close>

text \<open>
  The shape of the target type \<open>T\<close> of \<open>make_unique<T>\<close>, over element types \<open>'e\<close>:
  a non-array type, an array of unknown bound \<open>E[]\<close>, or an array of known bound \<open>E[N]\<close>.
\<close>

datatype 'e target = NonArray 'e | UnboundedArray 'e | BoundedArray 'e nat

text \<open>
  \<open>uniquity<T>\<close>: the primary template declares the member \<open>datum\<close>, the specialisation
  for \<open>T[]\<close> declares \<open>array\<close>, the one for \<open>T[N]\<close> declares \<open>verboten\<close>.
\<close>

datatype member = datum | array | verboten

fun uniquity :: "'e target \<Rightarrow> member" where
  "uniquity (NonArray T) = datum"
| "uniquity (UnboundedArray T) = array"
| "uniquity (BoundedArray T N) = verboten"

text \<open>\<open>remove_extent_t<T>\<close>: the element type of an array type, and \<open>T\<close> otherwise.\<close>

fun remove_extent_t :: "'e target \<Rightarrow> 'e" where
  "remove_extent_t (NonArray T) = T"
| "remove_extent_t (UnboundedArray T) = T"
| "remove_extent_t (BoundedArray T N) = T"

text \<open>
  Element types and their values. A class type is identified with what its default
  constructor does: the object it builds, or \<open>None\<close> when it throws. Arrays of arrays are
  outside this model.
\<close>

datatype 'c etype = Arithmetic | PointerType | Class "'c option"

datatype 'c val = Num int | Ptr "addr option" | Obj 'c

text \<open>
  The initialiser \<open>()\<close> of \<open>new E[n]()\<close> value-initialises every element: an arithmetic
  element is zero, a pointer is null, a class object is what its default constructor builds;
  \<open>None\<close> when that constructor throws.
\<close>

fun value_init :: "'c etype \<Rightarrow> 'c val option" where
  "value_init Arithmetic = Some (Num 0)"
| "value_init PointerType = Some (Ptr None)"
| "value_init (Class None) = None"
| "value_init (Class (Some c)) = Some (Obj c)"

text \<open>The elements of \<open>new E[k]()\<close> are initialised one after the other; the first
  constructor that throws ends the construction.\<close>

primrec construct_elements :: "nat \<Rightarrow> 'c etype \<Rightarrow> 'c val list option" where
  "construct_elements 0 E = Some []"
| "construct_elements (Suc k) E =
     (case value_init E of
        None \<Rightarrow> None
      | Some v \<Rightarrow>
          (case construct_elements k E of
             None \<Rightarrow> None
           | Some vs \<Rightarrow> Some (v # vs)))"

text \<open>
  What the specification asks of an element, in its words "default-initialized": an object
  of the element type; for a class type the default-constructed object, for an arithmetic or
  pointer type any value at all (its value is indeterminate).
\<close>

fun default_initialized :: "'c etype \<Rightarrow> 'c val \<Rightarrow> bool" where
  "default_initialized Arithmetic (Num i) = True"
| "default_initialized PointerType (Ptr p) = True"
| "default_initialized (Class c) (Obj x) = (c = Some x)"
| "default_initialized E v = False"


text \<open>
  The free store: the address of an allocation is its position; a released allocation leaves
  \<open>None\<close> behind.
\<close>

datatype 'c block = Single "'c val" | Array "'c val list"

type_synonym 'c heap = "'c block option list"

definition lookup :: "'c heap \<Rightarrow> addr \<Rightarrow> 'c block option" where
  "lookup h a = (if a < length h then h ! a else None)"

definition new :: "'c block \<Rightarrow> 'c heap \<Rightarrow> addr \<times> 'c heap" where
  "new b h = (length h, h @ [Some b])"

text \<open>
  What the implementation decides about an array \<open>new\<close>-expression and about conversions:
  \<open>sizeof(E)\<close> for every element type, the largest size in bytes an array object may
  have, whether the allocation function finds a given number of bytes in a given free store,
  and the conversion of a class object to \<open>std::size_t\<close> (\<open>None\<close> when its class has no
  such conversion).
\<close>

record 'c platform =
  size_of :: "'c etype \<Rightarrow> nat"
  array_limit :: nat
  grants :: "'c heap \<Rightarrow> nat \<Rightarrow> bool"
  to_size :: "'c \<Rightarrow> 64 word option"

text \<open>
  \<open>std::unique_ptr\<close>: the owning handle holds the address of its allocation, and its
  destructor releases that allocation.
\<close>

datatype unique_ptr = UniquePtr (get: addr)


type_synonym 'c args = "(category \<times> 'c val) list"

text \<open>
  \<open>make_unique(Args&&... args)\<close> returning \<open>uniquity<T>::datum\<close>:
  \<open>std::unique_ptr<T>(new T(std::forward<Args>(args)...))\<close>. The constructors of \<open>T\<close>
  are a parameter: \<open>ctor\<close> maps an argument list to the object built, or to \<open>None\<close>
  when the construction throws.
\<close>

definition make_unique_datum ::
  "('c args \<Rightarrow> 'c val option) \<Rightarrow> 'c args \<Rightarrow> 'c heap \<Rightarrow> error + (unique_ptr \<times> 'c heap)" where
  "make_unique_datum ctor args h =
     (case ctor (map (\<lambda>(c, v). (forward (deduce c), v)) args) of
        None \<Rightarrow> Inl ConstructorThrew
      | Some obj \<Rightarrow> (case new (Single obj) h of (a, h') \<Rightarrow> Inr (UniquePtr a, h')))"

text \<open>
  \<open>make_unique(std::size_t n)\<close> returning \<open>uniquity<T>::array\<close>:
  \<open>std::unique_ptr<T>(new remove_extent_t<T>[n]())\<close>, with a 64-bit \<open>std::size_t\<close>.
  The \<open>new\<close>-expression throws \<open>std::bad_array_new_length\<close> when \<open>n\<close> elements
  exceed the size an array may have, \<open>std::bad_alloc\<close> when the allocation function finds
  no storage for them, and whatever an element's constructor throws; the function has no
  handler, so each of them leaves it and no handle is returned.
\<close>

definition make_unique_array ::
  "'c platform \<Rightarrow> 'c etype target \<Rightarrow> 64 word \<Rightarrow> 'c heap \<Rightarrow> error + (unique_ptr \<times> 'c heap)" where
  "make_unique_array pf T n h =
     (if array_limit pf < unat n * size_of pf (remove_extent_t T) then Inl BadArrayNewLength
      else if \<not> grants pf h (unat n * size_of pf (remove_extent_t T)) then Inl BadAlloc
      else (case construct_elements (unat n) (remove_extent_t T) of
              None \<Rightarrow> Inl ConstructorThrew
            | Some xs \<Rightarrow> (case new (Array xs) h of (a, h') \<Rightarrow> Inr (UniquePtr a, h'))))"

text \<open>
  Overload resolution for a call \<open>make_unique<T>(args...)\<close>. Each of the three templates
  names a member of \<open>uniquity<T>\<close> in its return type and drops out when \<open>T\<close>'s
  specialisation does not declare it; the array overload also needs its one argument to
  convert to \<open>std::size_t\<close>. The third template is defined as deleted.
\<close>

datatype overload = DatumOverload | ArrayOverload | DeletedOverload

text \<open>
  The implicit conversion of an argument to \<open>std::size_t\<close>: an arithmetic value converts
  modulo \<open>2^64\<close>, a pointer does not convert, a class object converts when its class has
  a conversion function.
\<close>

fun to_size_t :: "'c platform \<Rightarrow> 'c val \<Rightarrow> 64 word option" where
  "to_size_t pf (Num i) = Some (word_of_int i)"
| "to_size_t pf (Ptr p) = None"
| "to_size_t pf (Obj x) = to_size pf x"

fun size_argument :: "'c platform \<Rightarrow> 'c args \<Rightarrow> 64 word option" where
  "size_argument pf [(c, v)] = to_size_t pf v"
| "size_argument pf args = None"

fun viable :: "'c platform \<Rightarrow> 'e target \<Rightarrow> 'c args \<Rightarrow> overload \<Rightarrow> bool" where
  "viable pf T args DatumOverload = (uniquity T = datum)"
| "viable pf T args ArrayOverload = (uniquity T = array \<and> size_argument pf args \<noteq> None)"
| "viable pf T args DeletedOverload = (uniquity T = verboten)"

definition make_unique ::
  "'c platform \<Rightarrow> ('c etype target \<Rightarrow> 'c args \<Rightarrow> 'c val option) \<Rightarrow> 'c etype target \<Rightarrow> 'c args
     \<Rightarrow> 'c heap \<Rightarrow> error + (unique_ptr \<times> 'c heap)" where
  "make_unique pf ctor T args h =
     (case filter (viable pf T args) [DatumOverload, ArrayOverload, DeletedOverload] of
        [] \<Rightarrow> Inl NoMatchingFunction
      | [DatumOverload] \<Rightarrow> make_unique_datum (ctor T) args h
      | [ArrayOverload] \<Rightarrow>
          (case size_argument pf args of
             None \<Rightarrow> Inl NoMatchingFunction
           | Some n \<Rightarrow> make_unique_array pf T n h)
      | [DeletedOverload] \<Rightarrow> Inl UseOfDeletedFunction
      | _ \<Rightarrow> Inl IllFormed)"

text \<open>
  A concrete implementation for the examples: \<open>int\<close> of four bytes and pointers of eight,
  arrays of up to \<open>2^64 - 1\<close> bytes, an allocation function that never refuses, classes
  without conversion to \<open>std::size_t\<close> and without constructors taking arguments.
\<close>

fun lp64_size_of :: "'c etype \<Rightarrow> nat" where
  "lp64_size_of Arithmetic = 4"
| "lp64_size_of PointerType = 8"
| "lp64_size_of (Class c) = 1"

definition always_grants :: "'c heap \<Rightarrow> nat \<Rightarrow> bool" where
  "always_grants h k = True"

definition no_conversion :: "'c \<Rightarrow> 64 word option" where
  "no_conversion x = None"

definition lp64 :: "'c platform" where
  "lp64 = \<lparr>size_of = lp64_size_of, array_limit = 2 ^ 64 - 1, grants = always_grants,
            to_size = no_conversion\<rparr>"

definition no_constructor :: "'c etype target \<Rightarrow> 'c args \<Rightarrow> 'c val option" where
  "no_constructor T args = None"

section \<open>The constexpr maximum (\<open>_backport14::max\<close>)\<close>

text \<open>
  A \<open>const T&\<close> is the address of an object together with the value found there.
  \<open>max(a, b)\<close> is \<open>a < b ? b : a\<close> and returns one of its two references.
\<close>

type_synonym 'a const_ref = "addr \<times> 'a"

definition max_backport14 :: "('a::linorder) const_ref \<Rightarrow> 'a const_ref \<Rightarrow> 'a const_ref" where
  "max_backport14 a b = (if snd a < snd b then b else a)"

section \<open>The negation adapter (\<open>_backport17::not_fn\<close>)\<close>

text \<open>
  The four ways a function object is called: as a non-const lvalue, a const lvalue, a
  non-const rvalue, a const rvalue. The call operator of a callable type takes the qualifier
  of the call, the arguments and the object's state, and returns the result and the state
  after the call.
\<close>

datatype qualifier = MutableLvalue | ConstLvalue | MutableRvalue | ConstRvalue

type_synonym ('s, 'a) callable = "qualifier \<Rightarrow> 'a \<Rightarrow> 's \<Rightarrow> bool \<times> 's"

record 's not_fn_result =
  fn :: 's      \<comment> \<open>\<open>DecayF fn\<close>\<close>

text \<open>\<open>not_fn(F&& fn)\<close>: \<open>not_fn_result<F>(std::forward<F>(fn))\<close> stores the callable.\<close>

definition not_fn :: "'s \<Rightarrow> 's not_fn_result" where
  "not_fn f = \<lparr>fn = f\<rparr>"

text \<open>\<open>operator()(Args&&... args) &\<close>: \<open>return !fn(std::forward<Args>(args)...);\<close>\<close>

definition call_lvalue ::
  "('s, 'a) callable \<Rightarrow> 'a \<Rightarrow> 's not_fn_result \<Rightarrow> bool \<times> 's not_fn_result" where
  "call_lvalue f args g =
     (case f MutableLvalue args (fn g) of (r, s') \<Rightarrow> (\<not> r, g\<lparr>fn := s'\<rparr>))"

text \<open>\<open>operator()(Args&&... args) const&\<close>: \<open>return !fn(std::forward<Args>(args)...);\<close>\<close>

definition call_const_lvalue ::
  "('s, 'a) callable \<Rightarrow> 'a \<Rightarrow> 's not_fn_result \<Rightarrow> bool \<times> 's not_fn_result" where
  "call_const_lvalue f args g =
     (case f ConstLvalue args (fn g) of (r, s') \<Rightarrow> (\<not> r, g\<lparr>fn := s'\<rparr>))"

text \<open>
  \<open>operator()(Args&&... args) &&\<close>:
  \<open>return !std::move(fn)(std::forward<Args>(args)...);\<close>
\<close>

definition call_rvalue ::
  "('s, 'a) callable \<Rightarrow> 'a \<Rightarrow> 's not_fn_result \<Rightarrow> bool \<times> 's not_fn_result" where
  "call_rvalue f args g =
     (case f MutableRvalue args (fn g) of (r, s') \<Rightarrow> (\<not> r, g\<lparr>fn := s'\<rparr>))"

text \<open>
  \<open>operator()(Args&&... args) const&&\<close>:
  \<open>return !std::move(fn)(std::forward<Args>(args)...);\<close>
\<close>

definition call_const_rvalue ::
  "('s, 'a) callable \<Rightarrow> 'a \<Rightarrow> 's not_fn_result \<Rightarrow> bool \<times> 's not_fn_result" where
  "call_const_rvalue f args g =
     (case f ConstRvalue args (fn g) of (r, s') \<Rightarrow> (\<not> r, g\<lparr>fn := s'\<rparr>))"

text \<open>A call \<open>g(args...)\<close> selects the overload whose ref-qualifier fits the way \<open>g\<close> is used.\<close>

fun invoke ::
  "('s, 'a) callable \<Rightarrow> qualifier \<Rightarrow> 'a \<Rightarrow> 's not_fn_result \<Rightarrow> bool \<times> 's not_fn_result" where
  "invoke f MutableLvalue args g = call_lvalue f args g"
| "invoke f ConstLvalue args g = call_const_lvalue f args g"
| "invoke f MutableRvalue args g = call_rvalue f args g"
| "invoke f ConstRvalue args g = call_const_rvalue f args g"

text \<open>
  A callable instrumented to record its invocations: beside its own state it keeps the list
  of the calls made so far, each with its qualifier and arguments.
\<close>

definition logged ::
  "('s, 'a) callable \<Rightarrow> ('s \<times> (qualifier \<times> 'a) list, 'a) callable" where
  "logged f q args sl =
     (case f q args (fst sl) of (r, s') \<Rightarrow> (r, (s', snd sl @ [(q, args)])))"

section \<open>Vocabulary of the statements\<close>

text \<open>The values a sequence of operations assigns to a joiner, in order.\<close>

fun assigned :: "'v action list \<Rightarrow> 'v list" where
  "assigned [] = []"
| "assigned (Assign v # as) = v # assigned as"
| "assigned (a # as) = assigned as"

text \<open>
  The text a joiner adds for a sequence of values, depending on whether it has written a
  value before: a joiner past its first value puts the delimiter before every value.
\<close>

definition contribution :: "bool \<Rightarrow> string \<Rightarrow> string list \<Rightarrow> string" where
  "contribution first d xs = (if first then joined d xs else concat (map (\<lambda>y. d @ y) xs))"

section \<open>Properties of the joiner\<close>

lemma contribution_Nil: "contribution f d [] = []"
  by (simp add: contribution_def)

lemma contribution_Cons:
  "contribution f d (x # xs) = (if f then x else d @ x) @ contribution False d xs"
  by (simp add: contribution_def)

lemma ostream_joiner_move_result:
  "ostream_joiner_move this s d w =
     Inr (w\<lparr>joiners := (joiners w)(this \<mapsto> \<lparr>out_stream = s, delim = d, first_element = True\<rparr>)\<rparr>)"
  by (simp add: ostream_joiner_move_def)

lemma ostream_joiner_copy_result: "ostream_joiner_copy this s d w = Inl IllFormed"
  by (simp add: ostream_joiner_copy_def)

text \<open>One assignment through a joiner whose stream exists.\<close>

lemma operator_assign_bound:
  assumes "joiners w this = Some j" and "streams w (out_stream j) = Some c"
  shows "operator_assign putd putv this v w =
           Inr (this, \<lparr>streams = (streams w)(out_stream j \<mapsto>
                          c @ (if first_element j then putv v else putd (delim j) @ putv v)),
                       joiners = (joiners w)(this \<mapsto> j\<lparr>first_element := False\<rparr>)\<rparr>)"
  using assms by (simp add: operator_assign_def stream_insert_def)

text \<open>
  Any sequence of operations without a post-increment, from any state of the joiner: the
  result is the joiner itself, and the stream has grown by the joined values.
\<close>

lemma run_bound:
  assumes "PostInc \<notin> set acts" and "joiners w this = Some j"
    and "streams w (out_stream j) = Some c"
  shows "run putd putv acts this w =
           Inr (this, \<lparr>streams = (streams w)(out_stream j \<mapsto>
                          c @ contribution (first_element j) (putd (delim j)) (map putv (assigned acts))),
                       joiners = (joiners w)(this \<mapsto>
                          j\<lparr>first_element := first_element j \<and> assigned acts = []\<rparr>)\<rparr>)"
  using assms
proof (induction acts arbitrary: w j c)
  case Nil
  then show ?case by (simp add: contribution_Nil fun_upd_idem)
next
  case (Cons a acts)
  show ?case
  proof (cases a)
    case Deref
    with Cons show ?thesis
      by (simp add: operator_deref_def)
  next
    case PreInc
    with Cons show ?thesis
      by (simp add: operator_preinc_def)
  next
    case PostInc
    with Cons.prems show ?thesis by simp
  next
    case (Assign v)
    let ?j1 = "j\<lparr>first_element := False\<rparr>"
    let ?c1 = "c @ (if first_element j then putv v else putd (delim j) @ putv v)"
    let ?w1 = "\<lparr>streams = (streams w)(out_stream j \<mapsto> ?c1),
               joiners = (joiners w)(this \<mapsto> ?j1)\<rparr>"
    have st: "step putd putv a this w = Inr (this, ?w1)"
      using Assign Cons.prems operator_assign_bound [of w this j c putd putv v] by simp
    have ih: "run putd putv acts this ?w1 =
           Inr (this, \<lparr>streams = (streams ?w1)(out_stream ?j1 \<mapsto>
                          ?c1 @ contribution (first_element ?j1) (putd (delim ?j1))
                                  (map putv (assigned acts))),
                       joiners = (joiners ?w1)(this \<mapsto>
                          ?j1\<lparr>first_element := first_element ?j1 \<and> assigned acts = []\<rparr>)\<rparr>)"
      using Cons.prems by (intro Cons.IH) simp_all
    show ?thesis
      using Assign st ih by (auto simp add: contribution_Cons)
  qed
qed

text \<open>A sequence that assigns nothing returns the joiner and the world as they were,
  unless it contains the post-increment, which is rejected.\<close>

lemma run_unassigned:
  "assigned acts = [] \<Longrightarrow>
   run putd putv acts this w = (if PostInc \<in> set acts then Inl IllFormed else Inr (this, w))"
proof (induction acts)
  case Nil
  then show ?case by simp
next
  case (Cons a acts)
  then show ?case
    by (cases a) (simp_all add: operator_deref_def operator_preinc_def operator_postinc_def)
qed

text \<open>
  The pattern of the generic copy algorithms with the pre-increment,
  \<open>*it = v; ++it;\<close>, is a single assignment.
\<close>

lemma deref_assign_preinc:
  "run putd putv [Deref, Assign v, PreInc] this w = operator_assign putd putv this v w"
  by (simp add: operator_deref_def operator_preinc_def operator_assign_def stream_insert_def
      split: sum.splits option.splits prod.splits)

text \<open>
  The constructor taking the delimiter by rvalue binds the joiner to the stream \<open>s\<close>, and
  an assignment then writes to \<open>s\<close>.
\<close>

lemma ostream_joiner_move_writes_bound_stream:
  assumes "streams w s = Some c"
  shows "\<exists>w0 w'. ostream_joiner_move this s d w = Inr w0 \<and>
           map_option out_stream (joiners w0 this) = Some s \<and>
           operator_assign putd putv this v w0 = Inr (this, w') \<and>
           streams w' = (streams w)(s \<mapsto> c @ putv v)"
  using assms
  by (simp add: ostream_joiner_move_result operator_assign_bound
      [of _ this "\<lparr>out_stream = s, delim = d, first_element = True\<rparr>" c])

lemma put_int_123: "put_int 1 = ''1''" "put_int 2 = ''2''" "put_int 3 = ''3''"
  by (simp_all add: put_int_def)

text \<open>
  Which calls of \<open>make_ostream_joiner\<close> reach which constructor: a delimiter whose type
  decays (a string literal) and a non-const rvalue take the constructor that binds the
  stream; an lvalue of the delimiter type itself and a const rvalue take the other one.
\<close>

lemma make_ostream_joiner_decays:
  "decays a \<Longrightarrow>
   make_ostream_joiner this os a w = ostream_joiner_move this os (value_of a) w"
  by (simp add: make_ostream_joiner_def)

lemma make_ostream_joiner_rvalue:
  "category_of a = Rvalue \<Longrightarrow> \<not> is_const a \<Longrightarrow>
   make_ostream_joiner this os a w = ostream_joiner_move this os (value_of a) w"
  by (cases "decays a") (simp_all add: make_ostream_joiner_def)

lemma make_ostream_joiner_lvalue:
  "category_of a = Lvalue \<Longrightarrow> \<not> decays a \<Longrightarrow>
   make_ostream_joiner this os a w = Inl IllFormed"
  by (simp add: make_ostream_joiner_def ostream_joiner_copy_result)

lemma make_ostream_joiner_const_rvalue:
  "category_of a = Rvalue \<Longrightarrow> is_const a \<Longrightarrow> \<not> decays a \<Longrightarrow>
   make_ostream_joiner this os a w = Inl IllFormed"
  by (simp add: make_ostream_joiner_def ostream_joiner_copy_result)

text \<open>
  Claim C1 (bound stream). The claim asks that both constructors bind the joiner to the
  stream \<open>s\<close>. The constructor taking the delimiter by const reference does not: its
  initialiser for \<open>out_stream\<close> is the address of the member \<open>out_stream\<close> itself, never
  the address of \<open>s\<close>, and the construction is rejected for every stream, delimiter and
  world.
\<close>

theorem ostream_joiner_copy_not_bound:
  "init_out_stream (AddressOfMember this) \<noteq> Inr s \<and>
   ostream_joiner_copy this s d w = Inl IllFormed"
  by (simp add: ostream_joiner_copy_def)

text \<open>
  Claim C3 (iterator protocol). Dereference and pre-increment return the joiner itself. The
  post-increment returns the pointer \<open>this\<close> where a reference is declared, so it is
  rejected, and the sequence dereference, assign, post-increment never yields a result.
\<close>

theorem operator_postinc_ill_formed:
  "operator_deref this = Inr this \<and> operator_preinc this = Inr this \<and>
   operator_postinc this = Inl IllFormed \<and>
   run putd putv [Deref, Assign v, PostInc] this w \<noteq> Inr (this', w')"
  by (simp add: operator_deref_def operator_preinc_def operator_postinc_def
      split: sum.splits prod.splits)

text \<open>
  Claim C5 (delimiter placement). A joiner constructed over the stream \<open>s\<close> with delimiter
  \<open>d\<close> and then used in any sequence of dereferences, pre-increments and assignments adds
  to \<open>s\<close> exactly the assigned values in order, the first bare and every later one with the
  delimiter immediately before it: no leading and no trailing delimiter.
\<close>

theorem ostream_joiner_delimits:
  assumes "ostream_joiner_move this s d w = Inr w0"
    and "streams w s = Some c"
    and "PostInc \<notin> set acts"
  shows "\<exists>w'. run putd putv acts this w0 = Inr (this, w') \<and>
           streams w' = (streams w)(s \<mapsto> c @ joined (putd d) (map putv (assigned acts)))"
proof -
  let ?j = "\<lparr>out_stream = s, delim = d, first_element = True\<rparr>"
  have w0: "w0 = w\<lparr>joiners := (joiners w)(this \<mapsto> ?j)\<rparr>"
    using assms(1) by (simp add: ostream_joiner_move_result)
  have "joiners w0 this = Some ?j" and "streams w0 (out_stream ?j) = Some c"
    using w0 assms(2) by simp_all
  from run_bound [OF assms(3) this, of putd putv] show ?thesis
    by (simp add: w0 contribution_def)
qed

text \<open>The example of the specification: delimiter \<open>,\<close> and the values 1, 2, 3.\<close>

theorem ostream_joiner_delimits_witness:
  "ostream_joiner_move 0 1 '','' \<lparr>streams = [1 \<mapsto> ''out: ''], joiners = Map.empty\<rparr>
     = Inr \<lparr>streams = [1 \<mapsto> ''out: ''],
            joiners = [0 \<mapsto> \<lparr>out_stream = 1, delim = '','', first_element = True\<rparr>]\<rparr> \<and>
   (\<exists>w'. run (\<lambda>d. d) put_int [Assign 1, Assign 2, Assign 3] 0
           \<lparr>streams = [1 \<mapsto> ''out: ''],
            joiners = [0 \<mapsto> \<lparr>out_stream = 1, delim = '','', first_element = True\<rparr>]\<rparr>
         = Inr (0, w') \<and> streams w' = [1 \<mapsto> ''out: 1,2,3''])"
  using ostream_joiner_delimits [of 0 1 "'',''"
      "\<lparr>streams = [1 \<mapsto> ''out: ''], joiners = Map.empty\<rparr>"
      "\<lparr>streams = [1 \<mapsto> ''out: ''],
        joiners = [0 \<mapsto> \<lparr>out_stream = 1, delim = '','', first_element = True\<rparr>]\<rparr>"
      "''out: ''" "[Assign 1, Assign 2, Assign 3]" "\<lambda>d. d" put_int]
  by (simp add: ostream_joiner_move_def put_int_123)

text \<open>
  Claim C9 (nothing assigned, nothing written). Construction leaves every stream as it was,
  and a sequence of dereferences and advances after it returns the joiner and the very same
  world, or is rejected when it contains the post-increment: in no case is a stream written.
\<close>

theorem ostream_joiner_unassigned_frame:
  assumes "ostream_joiner_copy this s d w = Inr w0 \<or> ostream_joiner_move this s d w = Inr w0"
    and "assigned acts = []"
  shows "streams w0 = streams w \<and>
         run putd putv acts this w0 =
           (if PostInc \<in> set acts then Inl IllFormed else Inr (this, w0))"
proof -
  have "w0 = w\<lparr>joiners := (joiners w)(this \<mapsto> \<lparr>out_stream = s, delim = d, first_element = True\<rparr>)\<rparr>"
    using assms(1) by (simp add: ostream_joiner_move_result ostream_joiner_copy_result)
  then have "streams w0 = streams w" by simp
  with run_unassigned [OF assms(2), of putd putv this w0] show ?thesis by simp
qed

theorem ostream_joiner_unassigned_frame_witness:
  "ostream_joiner_move 0 1 '','' \<lparr>streams = [1 \<mapsto> ''abc''], joiners = Map.empty\<rparr>
     = Inr \<lparr>streams = [1 \<mapsto> ''abc''],
            joiners = [0 \<mapsto> \<lparr>out_stream = 1, delim = '','', first_element = True\<rparr>]\<rparr> \<and>
   assigned [Deref, PreInc, Deref :: int action] = [] \<and>
   run (\<lambda>d. d) put_int [Deref, PreInc, Deref] 0
       \<lparr>streams = [1 \<mapsto> ''abc''],
        joiners = [0 \<mapsto> \<lparr>out_stream = 1, delim = '','', first_element = True\<rparr>]\<rparr>
     = Inr (0, \<lparr>streams = [1 \<mapsto> ''abc''],
                joiners = [0 \<mapsto> \<lparr>out_stream = 1, delim = '','', first_element = True\<rparr>]\<rparr>)"
  using ostream_joiner_unassigned_frame [of 0 1 "'',''"
      "\<lparr>streams = [1 \<mapsto> ''abc''], joiners = Map.empty\<rparr>"
      "\<lparr>streams = [1 \<mapsto> ''abc''],
        joiners = [0 \<mapsto> \<lparr>out_stream = 1, delim = '','', first_element = True\<rparr>]\<rparr>"
      "[Deref, PreInc, Deref]" "\<lambda>d. d" put_int]
  by (simp add: ostream_joiner_move_def)

section \<open>Properties of the factory\<close>



text \<open>
  Allocation: the new address was free, holds the new block afterwards, and every other
  address is untouched; releasing it again gives the free store of before.
\<close>

lemma lookup_fresh: "lookup h (fst (new b h)) = None"
  by (simp add: lookup_def new_def)

lemma lookup_new:
  "lookup (snd (new b h)) a = (if a = fst (new b h) then Some b else lookup h a)"
  by (simp add: lookup_def new_def nth_append)



lemma make_unique_unbounded:
  "make_unique pf ctor (UnboundedArray E) [(c, Num (uint n))] h =
     make_unique_array pf (UnboundedArray E) n h"
  by (simp add: make_unique_def)

lemma make_unique_unbounded_no_size:
  "size_argument pf args = None \<Longrightarrow>
   make_unique pf ctor (UnboundedArray E) args h = Inl NoMatchingFunction"
  by (simp add: make_unique_def)

text \<open>A class object with a conversion to \<open>std::size_t\<close> selects the array overload.\<close>

lemma make_unique_unbounded_converted:
  "to_size pf x = Some n \<Longrightarrow>
   make_unique pf ctor (UnboundedArray E) [(c, Obj x)] h =
     make_unique_array pf (UnboundedArray E) n h"
  by (simp add: make_unique_def)

text \<open>The elements of an array: \<open>k\<close> copies of the value-initialised element, unless
  there is an element to construct and its constructor throws.\<close>

lemma construct_elements_Some:
  "value_init E = Some v \<Longrightarrow> construct_elements k E = Some (replicate k v)"
  by (induction k) simp_all

lemma construct_elements_None:
  "value_init E = None \<Longrightarrow> construct_elements k E = (if k = 0 then Some [] else None)"
  by (induction k) simp_all

lemma value_init_default_initialized: "value_init E = Some v \<Longrightarrow> default_initialized E v"
  by (cases E rule: value_init.cases) auto


text \<open>What the array overload does, case by case.\<close>

lemma make_unique_array_too_long:
  "array_limit pf < unat n * size_of pf E \<Longrightarrow>
   make_unique_array pf (UnboundedArray E) n h = Inl BadArrayNewLength"
  by (simp add: make_unique_array_def)

lemma make_unique_array_refused:
  "unat n * size_of pf E \<le> array_limit pf \<Longrightarrow> \<not> grants pf h (unat n * size_of pf E) \<Longrightarrow>
   make_unique_array pf (UnboundedArray E) n h = Inl BadAlloc"
  by (simp add: make_unique_array_def)

lemma make_unique_array_threw:
  "unat n * size_of pf E \<le> array_limit pf \<Longrightarrow> grants pf h (unat n * size_of pf E) \<Longrightarrow>
   n \<noteq> 0 \<Longrightarrow> value_init E = None \<Longrightarrow>
   make_unique_array pf (UnboundedArray E) n h = Inl ConstructorThrew"
  by (simp add: make_unique_array_def construct_elements_None unat_eq_0)

lemma make_unique_array_built:
  "unat n * size_of pf E \<le> array_limit pf \<Longrightarrow> grants pf h (unat n * size_of pf E) \<Longrightarrow>
   construct_elements (unat n) E = Some xs \<Longrightarrow>
   make_unique_array pf (UnboundedArray E) n h = Inr (UniquePtr (length h), h @ [Some (Array xs)])"
  by (simp add: make_unique_array_def new_def)


lemma construct_elements_length:
  "construct_elements k E = Some xs \<Longrightarrow> length xs = k"
  by (cases "value_init E")
     (auto simp add: construct_elements_None construct_elements_Some split: if_splits)

lemma construct_elements_nth:
  "construct_elements k E = Some xs \<Longrightarrow> i < k \<Longrightarrow> value_init E = Some (xs ! i)"
  by (cases "value_init E")
     (auto simp add: construct_elements_None construct_elements_Some split: if_splits)

lemma unat_max_size_t: "unat (- 1 :: 64 word) = 18446744073709551615"
  by (simp add: unsigned_minus_1_eq_mask mask_eq_exp_minus_1)

lemma lp64_size_of_le: "lp64_size_of E \<le> 8"
  by (cases E) simp_all

lemma construct_elements_3:
  "construct_elements 3 E = map_option (\<lambda>v. [v, v, v]) (value_init E)"
  by (simp add: numeral_3_eq_3 split: option.splits)


lemma make_unique_array_3:
  assumes "value_init E = Some v"
  shows "make_unique lp64 ctor (UnboundedArray E) [(c, Num 3)] [] =
           Inr (UniquePtr 0, [Some (Array [v, v, v])])"
proof -
  have "3 * lp64_size_of E \<le> 2 ^ 64 - 1"
    using lp64_size_of_le [of E] by simp
  then show ?thesis
    using assms
    by (simp add: make_unique_def make_unique_array_def lp64_def always_grants_def new_def
        construct_elements_3)
qed


text \<open>
  Claim C7 (fixed-size arrays are rejected). For a target type \<open>E[N]\<close>, whatever the
  element type, the bound, the arguments and the free store, the call selects the deleted
  overload: the result is the compile-time rejection and never a handle.
\<close>

theorem make_unique_bounded_array_deleted:
  "make_unique pf ctor (BoundedArray E N) args h = Inl UseOfDeletedFunction"
  by (simp add: make_unique_def)



text \<open>
  Claim C4 as stated fails for a length whose array is larger than an array may be: for
  \<open>int\<close> elements and the length \<open>2^64 - 1\<close> (what \<open>make_unique<int[]>(-1)\<close> passes),
  the \<open>new\<close>-expression throws \<open>std::bad_array_new_length\<close> and no handle is returned.
\<close>

theorem make_unique_array_length_counterexample:
  "make_unique lp64 no_constructor (UnboundedArray (Arithmetic :: unit etype))
     [(Rvalue, Num (uint (- 1 :: 64 word)))] [] = Inl BadArrayNewLength"
  by (simp add: make_unique_def make_unique_array_def lp64_def unat_max_size_t)

text \<open>
  Claim C4, amended (array of exactly \<open>n\<close> elements, when the \<open>new\<close>-expression
  succeeds). For a target type \<open>E[]\<close> and a length \<open>n\<close> such that \<open>n\<close> elements are
  within the size an array may have, the allocation function grants them, and the default
  constructor of \<open>E\<close> does not throw unless \<open>n\<close> is zero: the call returns a handle to an
  address that was free; that address holds one contiguous array of exactly \<open>n\<close> elements,
  each a default-initialised object of type \<open>E\<close>, and no other address changes.
\<close>

theorem make_unique_array_elements:
  fixes n :: "64 word"
  assumes "unat n * size_of pf E \<le> array_limit pf"
    and "grants pf h (unat n * size_of pf E)"
    and "n = 0 \<or> value_init E \<noteq> None"
  shows "\<exists>p h' xs. make_unique pf ctor (UnboundedArray E) [(c, Num (uint n))] h = Inr (p, h') \<and>
     lookup h (get p) = None \<and>
     lookup h' (get p) = Some (Array xs) \<and>
     length xs = unat n \<and>
     list_all (default_initialized E) xs \<and>
     (\<forall>a. a \<noteq> get p \<longrightarrow> lookup h' a = lookup h a)"
proof -
  obtain xs where xs: "construct_elements (unat n) E = Some xs"
    using assms(3) by (cases "value_init E")
      (auto simp add: construct_elements_None construct_elements_Some unat_eq_0)
  have len: "length xs = unat n"
    using xs by (rule construct_elements_length)
  have "default_initialized E (xs ! i)" if "i < length xs" for i
    using construct_elements_nth [OF xs, of i] that len
    by (simp add: value_init_default_initialized)
  then have dflt: "list_all (default_initialized E) xs"
    by (simp add: list_all_length)
  let ?b = "Array xs"
  have "make_unique pf ctor (UnboundedArray E) [(c, Num (uint n))] h =
          Inr (UniquePtr (fst (new ?b h)), snd (new ?b h))"
    using make_unique_array_built [OF assms(1,2) xs]
    by (simp add: make_unique_unbounded new_def)
  moreover have "lookup h (fst (new ?b h)) = None"
    by (rule lookup_fresh)
  moreover have "lookup (snd (new ?b h)) x = (if x = fst (new ?b h) then Some ?b else lookup h x)"
    for x by (rule lookup_new)
  ultimately show ?thesis using len dflt by simp
qed

theorem make_unique_array_elements_witness:
  "unat (3 :: 64 word) * size_of (lp64 :: bool platform) (Class (Some True))
     \<le> array_limit (lp64 :: bool platform) \<and>
   grants lp64 [] (unat (3 :: 64 word) * size_of (lp64 :: bool platform) (Class (Some True))) \<and>
   value_init (Class (Some True)) = Some (Obj True) \<and>
   make_unique lp64 no_constructor (UnboundedArray (Class (Some True)))
      [(Rvalue, Num (uint (3 :: 64 word)))] []
     = Inr (UniquePtr 0, [Some (Array [Obj True, Obj True, Obj True])]) \<and>
   unat (3 :: 64 word) = 3 \<and>
   list_all (default_initialized (Class (Some True))) [Obj True, Obj True, Obj True]"
proof -
  have fits: "unat (3 :: 64 word) * size_of (lp64 :: bool platform) (Class (Some True))
                \<le> array_limit (lp64 :: bool platform)"
    by (simp add: lp64_def)
  have granted:
    "grants lp64 [] (unat (3 :: 64 word) * size_of (lp64 :: bool platform) (Class (Some True)))"
    by (simp add: lp64_def always_grants_def)
  have built: "(3 :: 64 word) = 0 \<or> value_init (Class (Some True)) \<noteq> None"
    by simp
  show ?thesis
    using make_unique_array_elements [OF fits granted built, of no_constructor Rvalue]
      fits granted
    by (simp add: make_unique_array_3)
qed



section \<open>Properties of the maximum\<close>

text \<open>
  Claim C2 as stated fails on a tie: with the value 5 at the addresses 0 and 1, neither
  compares less than the other, and the result is the reference to the object at address 0,
  the first argument, not the second.
\<close>

theorem max_backport14_tie_counterexample:
  "\<not> snd (0 :: addr, 5 :: int) < snd (1 :: addr, 5 :: int) \<and>
   \<not> snd (1 :: addr, 5 :: int) < snd (0 :: addr, 5 :: int) \<and>
   max_backport14 (0, 5 :: int) (1, 5) \<noteq> (1, 5)"
  by (simp add: max_backport14_def)

text \<open>
  Claim C2, amended (the first argument wins a tie). The result is one of the two
  references, its value is less than neither argument's, and whenever the two compare equal
  it is the reference to the first argument.
\<close>

theorem max_backport14_first_on_tie:
  fixes a b :: "('a::linorder) const_ref"
  shows "(max_backport14 a b = a \<or> max_backport14 a b = b) \<and>
         \<not> snd (max_backport14 a b) < snd a \<and>
         \<not> snd (max_backport14 a b) < snd b \<and>
         (\<not> snd a < snd b \<and> \<not> snd b < snd a \<longrightarrow> max_backport14 a b = a)"
  by (auto simp add: max_backport14_def)

theorem max_backport14_first_on_tie_witness:
  "\<not> snd (0 :: addr, 5 :: int) < snd (1 :: addr, 5 :: int) \<and>
   \<not> snd (1 :: addr, 5 :: int) < snd (0 :: addr, 5 :: int) \<and>
   max_backport14 (0, 5 :: int) (1, 5) = (0, 5)"
  using max_backport14_first_on_tie [of "(0, 5 :: int)" "(1, 5)"]
  by simp

section \<open>Properties of the negation adapter\<close>

text \<open>
  Claim C6 (negation, one call). For every callable, state of it, arguments and qualifier
  of the call, calling the adapter returns the negation of what the callable returns for the
  same qualifier and arguments, and the callable's record of invocations grows by exactly one
  entry: that qualifier with those arguments.
\<close>

theorem not_fn_negates_once:
  "invoke (logged f) q a (not_fn (s, log)) =
     (\<not> fst (f q a s), \<lparr>fn = (snd (f q a s), log @ [(q, a)])\<rparr>)"
  by (cases q)
     (simp_all add: call_lvalue_def call_const_lvalue_def call_rvalue_def call_const_rvalue_def
        logged_def not_fn_def split: prod.splits)

end
